theory Spec2Isabelle
  imports Complex_Main "HOL-Library.Word"
begin

unbundle bit_operations_syntax

section \<open>Data model\<close>

text \<open>
  \<^verbatim>\<open>std::bitset<32>\<close> and \<^verbatim>\<open>std::uint32_t\<close> are 32-bit words, \<^verbatim>\<open>std::size_t\<close> is a
  64-bit word. Bit \<open>i\<close> of a bitset is \<open>bit w i\<close>. Cycle numbers and the counters of the
  interaction count are natural numbers: the counters never exceed 32 and the count never
  exceeds 496 (lemma \<open>calculate_interactions_le\<close>), so no \<^verbatim>\<open>size_t\<close> arithmetic wraps.
  Samples (\<^verbatim>\<open>float\<close>) and coefficients (\<^verbatim>\<open>double\<close>) are real numbers.
\<close>

type_synonym bitset32 = "32 word"
type_synonym uint32_t = "32 word"
type_synonym size_t = "64 word"

text \<open>
  Exceptions are values. \<open>logic_error\<close> is the \<^verbatim>\<open>std::logic_error\<close> thrown by the
  constructor of the Power model (the specification's ConfigurationError), \<open>LookupError\<close>
  the failure of a coefficient lookup, \<open>Conversion_Out_Of_Range\<close> a conversion of a
  \<^verbatim>\<open>double\<close> to \<^verbatim>\<open>int\<close> whose truncated value does not fit (undefined in C++).
\<close>

datatype error = logic_error string | LookupError | Conversion_Out_Of_Range

record Assembly_Instruction =
  m_opcode :: string
  m_operands :: "string list"

text \<open>
  The two collaborators are declared in headers outside the model's sources; their query
  surface is taken as it is called. \<open>Get_Coefficients\<close> is \<open>None\<close> where the table has
  no entry for the pair of opcode and term name.
\<close>

record Execution =
  Get_Cycle_Count :: nat
  Is_Normal_State :: "nat \<Rightarrow> string \<Rightarrow> bool"
  Get_Instruction :: "nat \<Rightarrow> string \<Rightarrow> Assembly_Instruction"
  Get_Operand_Value :: "nat \<Rightarrow> Assembly_Instruction \<Rightarrow> nat \<Rightarrow> uint32_t"

record Coefficients =
  Get_Coefficients :: "string \<Rightarrow> string \<Rightarrow> real list option"

record Model =
  m_execution :: Execution
  m_coefficients :: Coefficients

record Assembly_Instruction_Power = Assembly_Instruction +
  Operand_1 :: uint32_t
  Operand_2 :: uint32_t
  Operand_1_Bit_Interactions :: nat
  Operand_2_Bit_Interactions :: nat

record Instruction_Terms_Interactions =
  Operand_1_Bit_Flip :: bitset32
  Operand_2_Bit_Flip :: bitset32
  Bit_Flip1_Bit_Interactions :: nat
  Bit_Flip2_Bit_Interactions :: nat

section \<open>Instruction\_Terms\_Helper\<close>

text \<open>
  \<open>calculate_interactions\<close>: the two nested \<^verbatim>\<open>for\<close> loops, the inner one starting at
  \<open>term_1 + 1\<close>; the product of two bits is 0 or 1.
\<close>

function interactions_inner :: "bitset32 \<Rightarrow> nat \<Rightarrow> nat \<Rightarrow> nat \<Rightarrow> nat" where
  "interactions_inner p_term term_1 term_2 result =
     (if term_2 < 32
      then interactions_inner p_term term_1 (term_2 + 1)
             (result + of_bool (bit p_term term_1) * of_bool (bit p_term term_2))
      else result)"
  by pat_completeness auto
termination
  by (relation "measure (\<lambda>(p, t1, t2, r). 32 - t2)") auto

function interactions_outer :: "bitset32 \<Rightarrow> nat \<Rightarrow> nat \<Rightarrow> nat" where
  "interactions_outer p_term term_1 result =
     (if term_1 < 32
      then interactions_outer p_term (term_1 + 1)
             (interactions_inner p_term term_1 (term_1 + 1) result)
      else result)"
  by pat_completeness auto
termination
  by (relation "measure (\<lambda>(p, t1, r). 32 - t1)") auto

definition calculate_interactions :: "bitset32 \<Rightarrow> nat" where
  "calculate_interactions p_term = interactions_outer p_term 0 0"

declare interactions_inner.simps [simp del]
declare interactions_outer.simps [simp del]

section \<open>Assembly\_Instruction\_Power\<close>

text \<open>
  The constructor. Its member initialisers set the opcode, the operands and the two
  interaction counts; \<open>Operand_1\<close> and \<open>Operand_2\<close> are not among them, so what these
  members hold is not determined by the arguments: it is passed in as \<open>indet_1\<close> and
  \<open>indet_2\<close>. The \<^verbatim>\<open>size_t\<close> arguments are converted to \<^verbatim>\<open>std::bitset<32>\<close>, which
  keeps their low 32 bits.
\<close>

definition Assembly_Instruction_Power ::
  "Assembly_Instruction \<Rightarrow> size_t \<Rightarrow> size_t \<Rightarrow> uint32_t \<Rightarrow> uint32_t
     \<Rightarrow> Assembly_Instruction_Power" where
  "Assembly_Instruction_Power p_instruction p_operand_1 p_operand_2 indet_1 indet_2 =
     \<lparr>m_opcode = m_opcode p_instruction,
      m_operands = m_operands p_instruction,
      Operand_1 = indet_1,
      Operand_2 = indet_2,
      Operand_1_Bit_Interactions = calculate_interactions (ucast p_operand_1),
      Operand_2_Bit_Interactions = calculate_interactions (ucast p_operand_2)\<rparr>"

section \<open>Instruction\_Terms\_Interactions\<close>

text \<open>\<^verbatim>\<open>result[i] = v\<close> on a bitset: bit \<open>i\<close> is set or cleared.\<close>

definition bitset_assign :: "bitset32 \<Rightarrow> nat \<Rightarrow> bool \<Rightarrow> bitset32" where
  "bitset_assign w i b = (if b then set_bit i w else unset_bit i w)"

function bitflips_loop :: "bitset32 \<Rightarrow> bitset32 \<Rightarrow> nat \<Rightarrow> bitset32 \<Rightarrow> bitset32" where
  "bitflips_loop p_instruction_1_operand p_instruction_2_operand i result =
     (if i < 32
      then bitflips_loop p_instruction_1_operand p_instruction_2_operand (i + 1)
             (bitset_assign result i
                (bit p_instruction_1_operand i \<noteq> bit p_instruction_2_operand i))
      else result)"
  by pat_completeness auto
termination
  by (relation "measure (\<lambda>(a, b, i, r). 32 - i)") auto

declare bitflips_loop.simps [simp del]

text \<open>The result starts as the default-constructed bitset, all bits clear.\<close>

definition calculate_bitflips :: "bitset32 \<Rightarrow> bitset32 \<Rightarrow> bitset32" where
  "calculate_bitflips p_instruction_1_operand p_instruction_2_operand =
     bitflips_loop p_instruction_1_operand p_instruction_2_operand 0 0"

text \<open>
  The constructor: both bit-flip members are initialised from \<open>Operand_1\<close> of the first
  instruction and \<open>Operand_2\<close> of the second, then the two counts from the two members.
\<close>

definition Instruction_Terms_Interactions ::
  "Assembly_Instruction_Power \<Rightarrow> Assembly_Instruction_Power
     \<Rightarrow> Instruction_Terms_Interactions" where
  "Instruction_Terms_Interactions p_instruction_1 p_instruction_2 =
     (let flip_1 = calculate_bitflips (Operand_1 p_instruction_1) (Operand_2 p_instruction_2);
          flip_2 = calculate_bitflips (Operand_1 p_instruction_1) (Operand_2 p_instruction_2)
      in \<lparr>Operand_1_Bit_Flip = flip_1,
          Operand_2_Bit_Flip = flip_2,
          Bit_Flip1_Bit_Interactions = calculate_interactions flip_1,
          Bit_Flip2_Bit_Interactions = calculate_interactions flip_2\<rparr>)"

section \<open>Model\_Power\<close>

definition get_instruction_terms ::
  "Model \<Rightarrow> nat \<Rightarrow> uint32_t \<Rightarrow> uint32_t \<Rightarrow> Assembly_Instruction_Power" where
  "get_instruction_terms this p_cycle indet_1 indet_2 =
     (if \<not> Is_Normal_State (m_execution this) p_cycle ''Execute''
      then Assembly_Instruction_Power
             (Get_Instruction (m_execution this) p_cycle ''Execute'') 0 0 indet_1 indet_2
      else
        let instruction = Get_Instruction (m_execution this) p_cycle ''Execute''
        in Assembly_Instruction_Power
             (Get_Instruction (m_execution this) p_cycle ''Execute'')
             (ucast (Get_Operand_Value (m_execution this) p_cycle instruction 1))
             (ucast (Get_Operand_Value (m_execution this) p_cycle instruction 2))
             indet_1 indet_2)"

text \<open>
  \<open>calculate_term\<close>. The accumulator is declared \<^verbatim>\<open>auto total = 0\<close>, an \<^verbatim>\<open>int\<close>: each
  \<^verbatim>\<open>total += p_instruction_term * bit\<close> adds in \<^verbatim>\<open>double\<close> and converts the sum back to
  \<^verbatim>\<open>int\<close>, which drops the fraction (towards zero).
\<close>

definition double_to_int :: "real \<Rightarrow> error + int" where
  "double_to_int x =
     (let t = (if 0 \<le> x then \<lfloor>x\<rfloor> else \<lceil>x\<rceil>)
      in if - 2147483648 \<le> t \<and> t \<le> 2147483647 then Inr t
         else Inl Conversion_Out_Of_Range)"

fun calculate_term_loop :: "real \<Rightarrow> real list \<Rightarrow> int \<Rightarrow> error + int" where
  "calculate_term_loop p_instruction_term [] total_int = Inr total_int"
| "calculate_term_loop p_instruction_term (coefficient_bit # rest) total_int =
     (case double_to_int (real_of_int total_int + p_instruction_term * coefficient_bit) of
        Inl e \<Rightarrow> Inl e
      | Inr total_next \<Rightarrow> calculate_term_loop p_instruction_term rest total_next)"

definition calculate_term :: "Model \<Rightarrow> string \<Rightarrow> string \<Rightarrow> real \<Rightarrow> error + real" where
  "calculate_term this p_opcode p_term_name p_instruction_term =
     (case Get_Coefficients (m_coefficients this) p_opcode p_term_name of
        None \<Rightarrow> Inl LookupError
      | Some coefficients \<Rightarrow>
          (case calculate_term_loop p_instruction_term coefficients 0 of
             Inl e \<Rightarrow> Inl e
           | Inr total_int \<Rightarrow> Inr (real_of_int total_int)))"

text \<open>
  Modelled from the spec: \<open>Check_Interaction_Terms\<close> is a member of the base class
  \<^verbatim>\<open>Model\<close> (Model.hpp), which is not among the sources. Section 4.2: construction
  "validates that every term name in RequiredTerms() has calibration data for [...] the
  opcodes actually present in the supplied Execution".
\<close>

definition Check_Interaction_Terms :: "string list \<Rightarrow> Model \<Rightarrow> bool" where
  "Check_Interaction_Terms required this =
     list_all (\<lambda>term_name.
        list_all (\<lambda>cycle.
           Get_Coefficients (m_coefficients this)
             (m_opcode (Get_Instruction (m_execution this) cycle ''Execute'')) term_name \<noteq> None)
          [0..<Get_Cycle_Count (m_execution this)])
       required"

text \<open>
  The constructor: the base constructor stores the two references, then the check of the
  interaction terms decides between the exception and the constructed model. The set
  \<open>m_required_interaction_terms\<close> is declared in the class and defined outside the
  sources; it is a parameter, given as the list of its elements.
\<close>

definition Model_Power :: "string list \<Rightarrow> Execution \<Rightarrow> Coefficients \<Rightarrow> error + Model" where
  "Model_Power m_required_interaction_terms p_execution p_coefficients =
     (let this = \<lparr>m_execution = p_execution, m_coefficients = p_coefficients\<rparr>
      in if \<not> Check_Interaction_Terms m_required_interaction_terms this
         then Inl (logic_error
           ''Model was not provided with correct interaction terms by the Coefficients file.'')
         else Inr this)"

section \<open>Model\_Hamming\_Weight\<close>

text \<open>The list of interaction terms used by this model, initialised with \<^verbatim>\<open>{}\<close>.\<close>

definition Model_Hamming_Weight_m_required_interaction_terms :: "string set" where
  "Model_Hamming_Weight_m_required_interaction_terms = {}"

text \<open>
  Modelled from the spec: \<open>hamming_weight\<close> is a helper declared outside the sources
  (Model.hpp). Section 4.4: "resolve the numeric value of its first operand [...]
  fixed-width 32-bit, compute its population count".
\<close>

definition hamming_weight :: "uint32_t \<Rightarrow> nat" where
  "hamming_weight v = length (filter (bit v) [0..<32])"

text \<open>
  \<open>Generate_Traces\<close>: one pass over the cycles \<open>0 .. Get_Cycle_Count - 1\<close>; a stall or
  flush appends 0 and continues, any other cycle appends the Hamming weight of the first
  operand of the instruction in the stage "Execute".
\<close>

function Hamming_Weight_Generate_Traces_loop :: "Model \<Rightarrow> nat \<Rightarrow> real list \<Rightarrow> real list" where
  "Hamming_Weight_Generate_Traces_loop this i traces =
     (if i < Get_Cycle_Count (m_execution this)
      then if \<not> Is_Normal_State (m_execution this) i ''Execute''
           then Hamming_Weight_Generate_Traces_loop this (i + 1) (traces @ [0])
           else Hamming_Weight_Generate_Traces_loop this (i + 1)
                  (traces @ [real (hamming_weight
                     (Get_Operand_Value (m_execution this) i
                        (Get_Instruction (m_execution this) i ''Execute'') 1))])
      else traces)"
  by pat_completeness auto
termination
  by (relation "measure (\<lambda>(this, i, traces). Get_Cycle_Count (m_execution this) - i)") auto

declare Hamming_Weight_Generate_Traces_loop.simps [simp del]

definition Model_Hamming_Weight_Generate_Traces :: "Model \<Rightarrow> real list" where
  "Model_Hamming_Weight_Generate_Traces this = Hamming_Weight_Generate_Traces_loop this 0 []"

section \<open>Auxiliary notions\<close>

text \<open>The set bits of a word at positions \<open>t\<close> and above.\<close>

definition bits_from :: "bitset32 \<Rightarrow> nat \<Rightarrow> nat set" where
  "bits_from v t = {n. t \<le> n \<and> n < 32 \<and> bit v n}"

section \<open>Examples\<close>

text \<open>Two feature bundles with operands (5, 2) and (5, 3).\<close>

definition bundle_5_2 :: Assembly_Instruction_Power where
  "bundle_5_2 =
     \<lparr>m_opcode = ''ADD'', m_operands = [''r1'', ''r2''],
      Operand_1 = 5, Operand_2 = 2,
      Operand_1_Bit_Interactions = 1, Operand_2_Bit_Interactions = 0\<rparr>"

definition bundle_5_3 :: Assembly_Instruction_Power where
  "bundle_5_3 =
     \<lparr>m_opcode = ''ADD'', m_operands = [''r1'', ''r2''],
      Operand_1 = 5, Operand_2 = 3,
      Operand_1_Bit_Interactions = 1, Operand_2_Bit_Interactions = 1\<rparr>"

text \<open>
  An execution of three cycles: cycle 0 is a stall, cycle 1 executes ADD on the operand
  values (5, 2), cycle 2 executes ADD on (5, 3).
\<close>

definition example_instruction :: Assembly_Instruction where
  "example_instruction = \<lparr>m_opcode = ''ADD'', m_operands = [''r1'', ''r2'']\<rparr>"

definition example_execution :: Execution where
  "example_execution =
     \<lparr>Get_Cycle_Count = 3,
      Is_Normal_State = (\<lambda>cycle stage. cycle \<noteq> 0),
      Get_Instruction = (\<lambda>cycle stage. example_instruction),
      Get_Operand_Value = (\<lambda>cycle instruction operand.
         if cycle = 0 then 7 else if operand = 1 then 5 else if cycle = 1 then 2 else 3)\<rparr>"

text \<open>
  Coefficient tables: all weights 1 for every term of ADD, no entry at all, and all
  weights one half.
\<close>

definition ones_coefficients :: Coefficients where
  "ones_coefficients =
     \<lparr>Get_Coefficients = (\<lambda>opcode term. if opcode = ''ADD'' then Some (replicate 32 1) else None)\<rparr>"

definition no_coefficients :: Coefficients where
  "no_coefficients = \<lparr>Get_Coefficients = (\<lambda>opcode term_name. None)\<rparr>"

definition half_coefficients :: Coefficients where
  "half_coefficients =
     \<lparr>Get_Coefficients = (\<lambda>opcode term_name. Some (replicate 32 (1 / 2)))\<rparr>"

definition example_model :: Model where
  "example_model = \<lparr>m_execution = example_execution, m_coefficients = ones_coefficients\<rparr>"

section \<open>Properties of the bit primitives\<close>

lemma bit_bitset_assign:
  "bit (bitset_assign w i b) n = (if n = i \<and> i < 32 then b else bit w n)"
  by (auto simp: bitset_assign_def bit_set_bit_iff bit_unset_bit_iff dest: bit_imp_le_length)

lemma bit_bitflips_loop:
  "bit (bitflips_loop a b i r) n =
     (if i \<le> n \<and> n < 32 then bit a n \<noteq> bit b n else bit r n)"
proof (induction a b i r rule: bitflips_loop.induct)
  case (1 a b i r)
  show ?case
  proof (cases "i < 32")
    case True
    then show ?thesis
      using "1.IH" [OF True]
      by (subst bitflips_loop.simps) (auto simp: bit_bitset_assign)
  next
    case False
    then show ?thesis
      by (subst bitflips_loop.simps) auto
  qed
qed

lemma calculate_bitflips_xor: "calculate_bitflips a b = a XOR b"
  by (rule bit_word_eqI) (simp add: calculate_bitflips_def bit_bitflips_loop bit_xor_iff)

lemma finite_bits_from: "finite (bits_from v t)"
  by (simp add: bits_from_def)

lemma bits_from_step:
  "t < 32 \<Longrightarrow>
     bits_from v t = (if bit v t then insert t (bits_from v (t + 1)) else bits_from v (t + 1))"
  by (auto simp: bits_from_def Suc_le_eq le_less)

lemma card_bits_from_step:
  assumes t: "t < 32"
  shows "card (bits_from v t) = of_bool (bit v t) + card (bits_from v (t + 1))"
proof -
  have "t \<notin> bits_from v (t + 1)" by (simp add: bits_from_def)
  then show ?thesis
    by (simp add: bits_from_step [OF t] finite_bits_from)
qed

lemma bits_from_0: "bits_from v 0 = {n. bit v n}"
  by (auto simp: bits_from_def dest: bit_imp_le_length)

lemma interactions_inner_eq:
  "interactions_inner v t1 t2 r = r + of_bool (bit v t1) * card (bits_from v t2)"
proof (induction v t1 t2 r rule: interactions_inner.induct)
  case (1 v t1 t2 r)
  show ?case
  proof (cases "t2 < 32")
    case True
    then show ?thesis
      using "1.IH" [OF True]
      by (subst interactions_inner.simps) (simp add: card_bits_from_step algebra_simps)
  next
    case False
    then have "bits_from v t2 = {}" by (auto simp: bits_from_def)
    with False show ?thesis
      by (subst interactions_inner.simps) simp
  qed
qed

lemma choose_two_step: "(Suc c) choose 2 = c + (c choose 2)"
  by (simp add: numeral_2_eq_2)

lemma interactions_outer_eq:
  "interactions_outer v t r = r + (card (bits_from v t) choose 2)"
proof (induction v t r rule: interactions_outer.induct)
  case (1 v t r)
  show ?case
  proof (cases "t < 32")
    case True
    then show ?thesis
      using "1.IH" [OF True]
      by (subst interactions_outer.simps)
         (simp add: interactions_inner_eq card_bits_from_step [OF True] choose_two_step)
  next
    case False
    then have "bits_from v t = {}" by (auto simp: bits_from_def)
    with False show ?thesis
      by (subst interactions_outer.simps) simp
  qed
qed

lemma calculate_interactions_choose:
  "calculate_interactions v = card {n. bit v n} choose 2"
  by (simp add: calculate_interactions_def interactions_outer_eq bits_from_0)

lemma pairs_card:
  fixes A :: "nat set"
  assumes "finite A"
  shows "card {(m, n). m \<in> A \<and> n \<in> A \<and> m < n} = card A choose 2"
  using assms
proof (induction rule: finite_linorder_max_induct)
  case empty
  then show ?case by simp
next
  case (insert b A)
  let ?P = "{(m, n). m \<in> A \<and> n \<in> A \<and> m < n}"
  have split:
    "{(m, n). m \<in> insert b A \<and> n \<in> insert b A \<and> m < n} = ?P \<union> (\<lambda>m. (m, b)) ` A"
    using insert.hyps(2) by (auto simp: image_iff dest: less_asym)
  have fin: "finite ?P"
    by (rule finite_subset [of _ "A \<times> A"]) (use insert.hyps(1) in auto)
  have disj: "?P \<inter> (\<lambda>m. (m, b)) ` A = {}"
    using insert.hyps(2) by auto
  have un: "card (?P \<union> (\<lambda>m. (m, b)) ` A) = card ?P + card ((\<lambda>m. (m, b)) ` A)"
    by (rule card_Un_disjoint) (use fin insert.hyps(1) disj in auto)
  have im: "card ((\<lambda>m. (m, b)) ` A) = card A"
    by (rule card_image) (simp add: inj_on_def)
  have notin: "b \<notin> A"
    using insert.hyps(2) by auto
  have "card {(m, n). m \<in> insert b A \<and> n \<in> insert b A \<and> m < n}
          = (card A choose 2) + card A"
    by (simp only: split un im insert.IH)
  also have "\<dots> = card (insert b A) choose 2"
    using insert.hyps(1) notin by (simp add: choose_two_step)
  finally show ?case .
qed

lemma card_bits_le: "card {n. bit (v :: bitset32) n} \<le> 32"
proof -
  have "{n. bit v n} \<subseteq> {..<32}"
    by (auto dest: bit_imp_le_length)
  then have "card {n. bit v n} \<le> card {..<32::nat}"
    by (intro card_mono) auto
  then show ?thesis by simp
qed

lemma calculate_interactions_le: "calculate_interactions v \<le> 496"
proof -
  let ?k = "card {n. bit v n}"
  have "?k * (?k - 1) \<le> 32 * 31"
    by (intro mult_le_mono) (use card_bits_le [of v] in auto)
  then have "?k * (?k - 1) div 2 \<le> 32 * 31 div 2"
    by (rule div_le_mono)
  then show ?thesis
    by (simp add: calculate_interactions_choose choose_two)
qed

text \<open>
  C8. The bit-flip primitive is bitwise exclusive or: bit \<open>i\<close> of the result is set iff the
  two words differ at position \<open>i\<close>. So the flips of a word against itself are 0, the flips
  of a word against its complement are \<open>0xFFFFFFFF\<close>, and the pairwise interaction count
  of that vector is 496.
\<close>

theorem calculate_bitflips_is_xor:
  "calculate_bitflips a b = a XOR b
   \<and> (bit (calculate_bitflips a b) i \<longleftrightarrow> bit a i \<noteq> bit b i)
   \<and> calculate_bitflips a a = 0
   \<and> calculate_bitflips a (NOT a) = 0xFFFFFFFF
   \<and> calculate_interactions (calculate_bitflips a (NOT a)) = 496"
proof -
  have ones: "calculate_interactions (0xFFFFFFFF :: bitset32) = 496"
    by code_simp
  have x: "calculate_bitflips a (NOT a) = 0xFFFFFFFF"
    by (simp add: calculate_bitflips_xor)
  have c1: "calculate_bitflips a b = a XOR b"
    by (rule calculate_bitflips_xor)
  have c2: "bit (calculate_bitflips a b) i \<longleftrightarrow> bit a i \<noteq> bit b i"
    by (simp add: calculate_bitflips_xor bit_xor_iff)
  have c3: "calculate_bitflips a a = 0"
    by (simp add: calculate_bitflips_xor)
  have c5: "calculate_interactions (calculate_bitflips a (NOT a)) = 496"
    by (simp only: x ones)
  from c1 c2 c3 x c5 show ?thesis
    by (intro conjI)
qed

text \<open>
  C3. For every 32-bit word the pairwise interaction count is the number of pairs of bit
  positions \<open>m < n\<close> at which both bits are set, which is \<open>k * (k - 1) / 2\<close> for \<open>k\<close> the
  number of set bits; no set bit gives 0, three set bits give 3, all 32 give 496.
\<close>

theorem calculate_interactions_pairs:
  "calculate_interactions v = card {(m, n). m < n \<and> bit v m \<and> bit v n}
   \<and> calculate_interactions v = card {n. bit v n} * (card {n. bit v n} - 1) div 2
   \<and> calculate_interactions 0 = 0
   \<and> calculate_interactions 7 = 3
   \<and> calculate_interactions 0xFFFFFFFF = 496"
proof -
  have "{(m, n). m < n \<and> bit v m \<and> bit v n}
          = {(m, n). m \<in> {n. bit v n} \<and> n \<in> {n. bit v n} \<and> m < n}"
    by auto
  then have pairs: "card {(m, n). m < n \<and> bit v m \<and> bit v n} = card {n. bit v n} choose 2"
    by (simp only: pairs_card [of "{n. bit v n}", OF finite_bit_word])
  have c0: "calculate_interactions 0 = 0"
    by (simp add: calculate_interactions_choose)
  have c7: "calculate_interactions 7 = 3"
    by code_simp
  have call: "calculate_interactions 0xFFFFFFFF = 496"
    by code_simp
  have formula: "calculate_interactions v = card {n. bit v n} * (card {n. bit v n} - 1) div 2"
    by (simp only: calculate_interactions_choose choose_two)
  have count: "calculate_interactions v = card {(m, n). m < n \<and> bit v m \<and> bit v n}"
    by (simp only: calculate_interactions_choose pairs)
  from count formula c0 c7 call show ?thesis
    by (intro conjI)
qed

text \<open>
  C10. For every pair of feature bundles given to the cross-cycle constructor the two
  stored bit-flip vectors are equal, and with them the two bit-flip interaction counts:
  both vectors are computed from the same pair of arguments, \<open>Operand_1\<close> of the first
  bundle and \<open>Operand_2\<close> of the second.
\<close>

theorem bit_flip_vectors_equal:
  "Operand_1_Bit_Flip (Instruction_Terms_Interactions p_instruction_1 p_instruction_2)
     = Operand_2_Bit_Flip (Instruction_Terms_Interactions p_instruction_1 p_instruction_2)
   \<and> Bit_Flip1_Bit_Interactions (Instruction_Terms_Interactions p_instruction_1 p_instruction_2)
     = Bit_Flip2_Bit_Interactions (Instruction_Terms_Interactions p_instruction_1 p_instruction_2)
   \<and> Operand_1_Bit_Flip (Instruction_Terms_Interactions p_instruction_1 p_instruction_2)
     = Operand_1 p_instruction_1 XOR Operand_2 p_instruction_2"
  by (simp add: Instruction_Terms_Interactions_def Let_def calculate_bitflips_xor)

text \<open>
  C1. The stored bit-flip vector \<open>k\<close> should be the exclusive or of operand \<open>k\<close> of the
  current cycle and operand \<open>k\<close> of the previous one, for \<open>k\<close> in 1 and 2. On the bundles
  with operands (5, 2) and (5, 3) that is \<open>5 XOR 5 = 0\<close> and \<open>2 XOR 3 = 1\<close>, whichever of
  the two is the current one; the constructor stores \<open>5 XOR 3 = 6\<close> in both members.
\<close>

theorem bit_flip_operand_mismatch:
  "Operand_1_Bit_Flip (Instruction_Terms_Interactions bundle_5_2 bundle_5_3) = 6
   \<and> Operand_2_Bit_Flip (Instruction_Terms_Interactions bundle_5_2 bundle_5_3) = 6
   \<and> Operand_1 bundle_5_2 XOR Operand_1 bundle_5_3 = 0
   \<and> Operand_2 bundle_5_2 XOR Operand_2 bundle_5_3 = 1"
  by (simp add: Instruction_Terms_Interactions_def Let_def calculate_bitflips_xor
        bundle_5_2_def bundle_5_3_def)

section \<open>Properties of the Hamming Weight model\<close>

lemma hamming_weight_card: "hamming_weight v = card {n. bit v n}"
proof -
  have "{n. bit v n} = set (filter (bit v) [0..<32])"
    by (auto dest: bit_imp_le_length)
  moreover have "distinct (filter (bit v) [0..<32])"
    by simp
  ultimately show ?thesis
    by (simp only: hamming_weight_def distinct_card)
qed

lemma Hamming_Weight_loop_eq:
  "i \<le> Get_Cycle_Count (m_execution this) \<Longrightarrow>
   Hamming_Weight_Generate_Traces_loop this i traces =
     traces @ map (\<lambda>c. if Is_Normal_State (m_execution this) c ''Execute''
                        then real (hamming_weight (Get_Operand_Value (m_execution this) c
                               (Get_Instruction (m_execution this) c ''Execute'') 1))
                        else 0) [i..<Get_Cycle_Count (m_execution this)]"
proof (induction this i traces rule: Hamming_Weight_Generate_Traces_loop.induct)
  case (1 this i traces)
  show ?case
  proof (cases "i < Get_Cycle_Count (m_execution this)")
    case True
    then have up: "[i..<Get_Cycle_Count (m_execution this)] = i # [i + 1..<Get_Cycle_Count (m_execution this)]"
      by (simp add: upt_conv_Cons)
    show ?thesis
    proof (cases "Is_Normal_State (m_execution this) i ''Execute''")
      case normal: True
      then show ?thesis
        using True "1.IH"(2) [OF True] 
        by (subst Hamming_Weight_Generate_Traces_loop.simps) (simp add: up)
    next
      case stall: False
      then show ?thesis
        using True "1.IH"(1) [OF True]
        by (subst Hamming_Weight_Generate_Traces_loop.simps) (simp add: up)
    qed
  next
    case False
    with "1.prems" show ?thesis
      by (subst Hamming_Weight_Generate_Traces_loop.simps) simp
  qed
qed

lemma Hamming_Weight_Generate_Traces_map:
  "Model_Hamming_Weight_Generate_Traces this =
     map (\<lambda>c. if Is_Normal_State (m_execution this) c ''Execute''
               then real (hamming_weight (Get_Operand_Value (m_execution this) c
                      (Get_Instruction (m_execution this) c ''Execute'') 1))
               else 0) [0..<Get_Cycle_Count (m_execution this)]"
  by (simp add: Model_Hamming_Weight_Generate_Traces_def Hamming_Weight_loop_eq)

text \<open>
  C4. At every cycle \<open>i\<close> of the trace generation of the Hamming Weight model the sample is
  0 if the stage "Execute" is not in a normal state at \<open>i\<close>, and otherwise the population
  count of the 32-bit value of the first operand of the instruction in the stage; the
  population count of 0 is 0 and that of the all-ones word is 32.
\<close>

theorem hamming_weight_samples:
  assumes "i < Get_Cycle_Count (m_execution this)"
  shows "Model_Hamming_Weight_Generate_Traces this ! i =
           (if \<not> Is_Normal_State (m_execution this) i ''Execute'' then 0
            else real (hamming_weight (Get_Operand_Value (m_execution this) i
                         (Get_Instruction (m_execution this) i ''Execute'') 1)))
         \<and> hamming_weight v = card {n. bit v n}
         \<and> hamming_weight 0 = 0
         \<and> hamming_weight 0xFFFFFFFF = 32"
proof -
  have sample: "Model_Hamming_Weight_Generate_Traces this ! i =
           (if \<not> Is_Normal_State (m_execution this) i ''Execute'' then 0
            else real (hamming_weight (Get_Operand_Value (m_execution this) i
                         (Get_Instruction (m_execution this) i ''Execute'') 1)))"
    using assms by (simp add: Hamming_Weight_Generate_Traces_map)
  have zero: "hamming_weight 0 = 0"
    by (simp add: hamming_weight_def)
  have ones: "hamming_weight 0xFFFFFFFF = 32"
    by code_simp
  from sample hamming_weight_card [of v] zero ones show ?thesis
    by (intro conjI)
qed

theorem hamming_weight_samples_witness:
  "(2::nat) < Get_Cycle_Count (m_execution example_model)
   \<and> Model_Hamming_Weight_Generate_Traces example_model ! 0 = 0
   \<and> Model_Hamming_Weight_Generate_Traces example_model ! 2 = real (hamming_weight 5)"
proof -
  have n0: "(0::nat) < Get_Cycle_Count (m_execution example_model)"
    and n2: "(2::nat) < Get_Cycle_Count (m_execution example_model)"
    by (simp_all add: example_model_def example_execution_def)
  from hamming_weight_samples [OF n0] hamming_weight_samples [OF n2] show ?thesis
    by (simp add: example_model_def example_execution_def)
qed

text \<open>
  C9. The set of required interaction terms of the Hamming Weight model is empty, and its
  trace does not depend on the coefficients.
\<close>

theorem hamming_weight_no_terms:
  "Model_Hamming_Weight_m_required_interaction_terms = {}
   \<and> Model_Hamming_Weight_Generate_Traces \<lparr>m_execution = e, m_coefficients = c\<rparr>
       = Model_Hamming_Weight_Generate_Traces \<lparr>m_execution = e, m_coefficients = c'\<rparr>"
  by (simp add: Model_Hamming_Weight_m_required_interaction_terms_def
        Hamming_Weight_Generate_Traces_map)

section \<open>Properties of the Power model\<close>

text \<open>
  C7. At a cycle where the stage "Execute" is in a stall or flush state the feature bundle
  is constructed from the operand values 0 and 0, so both self-interaction counts of the
  bundle are 0.
\<close>

theorem stall_bundle_zero:
  assumes "\<not> Is_Normal_State (m_execution this) p_cycle ''Execute''"
  shows "get_instruction_terms this p_cycle indet_1 indet_2 =
           Assembly_Instruction_Power
             (Get_Instruction (m_execution this) p_cycle ''Execute'') 0 0 indet_1 indet_2
         \<and> Operand_1_Bit_Interactions (get_instruction_terms this p_cycle indet_1 indet_2) = 0
         \<and> Operand_2_Bit_Interactions (get_instruction_terms this p_cycle indet_1 indet_2) = 0"
  using assms
  by (simp add: get_instruction_terms_def Assembly_Instruction_Power_def
        calculate_interactions_choose)

theorem stall_bundle_zero_witness:
  "\<not> Is_Normal_State (m_execution example_model) 0 ''Execute''
   \<and> Operand_1_Bit_Interactions (get_instruction_terms example_model 0 9 9) = 0
   \<and> Operand_2_Bit_Interactions (get_instruction_terms example_model 0 9 9) = 0"
proof -
  have stall: "\<not> Is_Normal_State (m_execution example_model) 0 ''Execute''"
    by (simp add: example_model_def example_execution_def)
  from stall_bundle_zero [OF stall, of 9 9] stall show ?thesis
    by blast
qed

text \<open>
  C6. Construction of the Power model fails with the \<open>logic_error\<close> exactly when the check
  of the interaction terms fails, that is when some required term has no coefficients for
  the opcode of some cycle of the execution; then no model is returned. Otherwise the
  model is returned.
\<close>

theorem Model_Power_construction:
  "(Model_Power required p_execution p_coefficients
      = Inl (logic_error
          ''Model was not provided with correct interaction terms by the Coefficients file.'')
    \<longleftrightarrow> \<not> Check_Interaction_Terms required
            \<lparr>m_execution = p_execution, m_coefficients = p_coefficients\<rparr>)
   \<and> (Model_Power required p_execution p_coefficients
        = Inr \<lparr>m_execution = p_execution, m_coefficients = p_coefficients\<rparr>
      \<longleftrightarrow> Check_Interaction_Terms required
            \<lparr>m_execution = p_execution, m_coefficients = p_coefficients\<rparr>)
   \<and> (isl (Model_Power required p_execution p_coefficients)
      \<longleftrightarrow> (\<exists>term_name cycle. term_name \<in> set required
             \<and> cycle < Get_Cycle_Count p_execution
             \<and> Get_Coefficients p_coefficients
                 (m_opcode (Get_Instruction p_execution cycle ''Execute'')) term_name = None))"
proof -
  let ?m = "\<lparr>m_execution = p_execution, m_coefficients = p_coefficients\<rparr>"
  have fails: "Model_Power required p_execution p_coefficients
      = Inl (logic_error
          ''Model was not provided with correct interaction terms by the Coefficients file.'')
    \<longleftrightarrow> \<not> Check_Interaction_Terms required ?m"
    by (simp add: Model_Power_def Let_def)
  have succeeds: "Model_Power required p_execution p_coefficients = Inr ?m
    \<longleftrightarrow> Check_Interaction_Terms required ?m"
    by (simp add: Model_Power_def Let_def)
  have check: "\<not> Check_Interaction_Terms required ?m
    \<longleftrightarrow> (\<exists>term_name cycle. term_name \<in> set required
             \<and> cycle < Get_Cycle_Count p_execution
             \<and> Get_Coefficients p_coefficients
                 (m_opcode (Get_Instruction p_execution cycle ''Execute'')) term_name = None)"
    by (simp add: Check_Interaction_Terms_def list_all_iff Bex_def)
  have "isl (Model_Power required p_execution p_coefficients)
    \<longleftrightarrow> \<not> Check_Interaction_Terms required ?m"
    by (simp add: Model_Power_def Let_def)
  with check have missing: "isl (Model_Power required p_execution p_coefficients)
    \<longleftrightarrow> (\<exists>term_name cycle. term_name \<in> set required
             \<and> cycle < Get_Cycle_Count p_execution
             \<and> Get_Coefficients p_coefficients
                 (m_opcode (Get_Instruction p_execution cycle ''Execute'')) term_name = None)"
    by (simp only:)
  from fails succeeds missing show ?thesis
    by (intro conjI)
qed

theorem Model_Power_construction_witness:
  "Model_Power [''Operand1''] example_execution no_coefficients
     = Inl (logic_error
         ''Model was not provided with correct interaction terms by the Coefficients file.'')
   \<and> Model_Power [''Operand1''] example_execution ones_coefficients
     = Inr \<lparr>m_execution = example_execution, m_coefficients = ones_coefficients\<rparr>"
proof -
  have bad: "\<not> Check_Interaction_Terms [''Operand1'']
                 \<lparr>m_execution = example_execution, m_coefficients = no_coefficients\<rparr>"
    by (auto simp: Check_Interaction_Terms_def list_all_iff example_execution_def
          no_coefficients_def intro: exI [of _ 0])
  have good: "Check_Interaction_Terms [''Operand1'']
                \<lparr>m_execution = example_execution, m_coefficients = ones_coefficients\<rparr>"
    by (simp add: Check_Interaction_Terms_def list_all_iff example_execution_def
          ones_coefficients_def example_instruction_def)
  from bad good
    Model_Power_construction [of "[''Operand1'']" example_execution no_coefficients]
    Model_Power_construction [of "[''Operand1'']" example_execution ones_coefficients]
  show ?thesis
    by blast
qed

lemma calculate_term_loop_half:
  "calculate_term_loop 1 (replicate n (1 / 2)) 0 = Inr 0"
  by (induction n) (simp_all add: double_to_int_def)

text \<open>
  C2. The contribution of a term should be the exact sum of the products of the scalar
  with each coefficient entry. For the scalar 1 and 32 coefficients of one half that sum
  is 16; \<open>calculate_term\<close> returns 0, because the accumulator is an integer and every
  addition drops the fraction.
\<close>

theorem calculate_term_truncates:
  "calculate_term \<lparr>m_execution = example_execution, m_coefficients = half_coefficients\<rparr>
     ''ADD'' ''Operand1'' 1 = Inr 0
   \<and> Get_Coefficients half_coefficients ''ADD'' ''Operand1'' = Some (replicate 32 (1 / 2))
   \<and> (\<Sum>entry\<leftarrow>replicate 32 (1 / 2). (1::real) * entry) = 16"
  by (simp add: calculate_term_def half_coefficients_def calculate_term_loop_half
        sum_list_replicate)


section \<open>Trace length\<close>

lemma example_upt: "[0..<3] = [0, 1, 2]"
  by (simp add: upt_rec)

lemma example_states:
  "\<not> Is_Normal_State (m_execution example_model) 0 ''Execute''"
  "Is_Normal_State (m_execution example_model) (Suc 0) ''Execute''"
  "Is_Normal_State (m_execution example_model) 2 ''Execute''"
  "Get_Cycle_Count (m_execution example_model) = 3"
  by (simp_all add: example_model_def example_execution_def)

lemma example_hamming_trace:
  "Model_Hamming_Weight_Generate_Traces example_model = [0, 2, 2]"
proof -
  have hw: "hamming_weight 5 = 2" by code_simp
  show ?thesis
    by (simp add: Hamming_Weight_Generate_Traces_map example_states example_upt)
       (simp add: example_model_def example_execution_def hw)
qed

lemma Hamming_Weight_loop_append:
  "\<exists>samples. Hamming_Weight_Generate_Traces_loop this i traces = traces @ samples
      \<and> length samples = Get_Cycle_Count (m_execution this) - i"
proof (cases "i \<le> Get_Cycle_Count (m_execution this)")
  case True
  then show ?thesis
    by (simp add: Hamming_Weight_loop_eq)
next
  case False
  then show ?thesis
    by (subst Hamming_Weight_Generate_Traces_loop.simps) simp
qed

text \<open>
  C5. The trace returned by the trace generation of the Hamming Weight model has exactly as
  many samples as the execution has cycles, one appended per cycle in order: every pass of
  the loop from cycle \<open>i\<close> keeps the samples appended so far and appends one for each
  remaining cycle.
\<close>

theorem trace_length:
  "length (Model_Hamming_Weight_Generate_Traces this) = Get_Cycle_Count (m_execution this)
   \<and> length (Hamming_Weight_Generate_Traces_loop this i traces)
       = length traces + (Get_Cycle_Count (m_execution this) - i)
   \<and> take (length traces) (Hamming_Weight_Generate_Traces_loop this i traces) = traces"
proof -
  have hw: "length (Model_Hamming_Weight_Generate_Traces this) = Get_Cycle_Count (m_execution this)"
    by (simp add: Hamming_Weight_Generate_Traces_map)
  obtain samples where
    loop: "Hamming_Weight_Generate_Traces_loop this i traces = traces @ samples"
    and len: "length samples = Get_Cycle_Count (m_execution this) - i"
    using Hamming_Weight_loop_append [of this i traces] by blast
  have one: "length (Hamming_Weight_Generate_Traces_loop this i traces)
       = length traces + (Get_Cycle_Count (m_execution this) - i)"
    by (simp add: loop len)
  have keep: "take (length traces) (Hamming_Weight_Generate_Traces_loop this i traces) = traces"
    by (simp add: loop)
  from hw one keep show ?thesis
    by (intro conjI)
qed

end
